theory Spec2Isabelle
  imports Main "HOL-Library.Word" "HOL-Library.Code_Target_Nat"
begin

section \<open>Table-based authentication of HRDESK (src/lib/tableAuth.ts)\<close>

text \<open>
  The module talks to three remote tables (\<open>profiles\<close>, \<open>user_roles\<close>, \<open>user_sessions\<close>),
  two remote procedures (\<open>hash_password\<close>, \<open>verify_password\<close>) and the browser's
  \<open>localStorage\<close>. The embedding passes the tables and the storage around as an explicit
  \<open>world\<close>; what the remote side answers to each request, the random bytes, the clock
  and what the browser does on a write to the session store are read from an
  environment record, one field per step in source order.
\<close>

subsection \<open>Strings\<close>

text \<open>
  Messages, names, hashes, tokens and identifiers are only compared and passed on;
  they are \<open>string\<close>s. The email is the one string the module computes with, so it
  is a JavaScript string as it is: the list of its UTF-16 code units, each a natural
  number (the module does no arithmetic on them that could leave 16 bits). \<open>js\<close>
  embeds a literal (characters up to U+00FF).

  \<open>String.prototype.toLowerCase\<close>: on a string whose code units are all below 256
  it maps A..Z and the Latin-1 capitals (C0..DE except D7) to the letter 32 places
  further and leaves every other unit alone. Beyond that range the mapping is the
  engine's Unicode table (not one unit at a time, not length-preserving); it is the
  parameter \<open>beyond\<close>, which the environment of a call supplies.

  \<open>String.prototype.trim\<close> removes leading and trailing white space and line
  terminators: the units 9..D, 20, A0, 1680, 2000..200A, 2028, 2029, 202F, 205F, 3000
  and FEFF (hexadecimal).
\<close>

type_synonym jsstring = "nat list"

definition js :: "string \<Rightarrow> jsstring" where
  "js s = map of_char s"

definition lower_unit :: "nat \<Rightarrow> nat" where
  "lower_unit n =
     (if (65 \<le> n \<and> n \<le> 90) \<or> (192 \<le> n \<and> n \<le> 222 \<and> n \<noteq> 215) then n + 32 else n)"

definition latin1 :: "jsstring \<Rightarrow> bool" where
  "latin1 s = list_all (\<lambda>n. n < 256) s"

definition toLowerCase :: "(jsstring \<Rightarrow> jsstring) \<Rightarrow> jsstring \<Rightarrow> jsstring" where
  "toLowerCase beyond s = (if latin1 s then map lower_unit s else beyond s)"

definition is_space :: "nat \<Rightarrow> bool" where
  "is_space n =
     ((9 \<le> n \<and> n \<le> 13) \<or> n = 32 \<or> n = 160 \<or> n = 5760 \<or> (8192 \<le> n \<and> n \<le> 8202)
      \<or> n = 8232 \<or> n = 8233 \<or> n = 8239 \<or> n = 8287 \<or> n = 12288 \<or> n = 65279)"

definition trim :: "jsstring \<Rightarrow> jsstring" where
  "trim s = rev (dropWhile is_space (rev (dropWhile is_space s)))"

text \<open>
  Truthiness of a value that is a string or \<open>null\<close>: \<open>null\<close> and the empty string
  are falsy.
\<close>

definition truthy :: "string option \<Rightarrow> bool" where
  "truthy v = (case v of None \<Rightarrow> False | Some s \<Rightarrow> s \<noteq> [])"

text \<open>\<open>a || b\<close> on such values.\<close>

definition or_else :: "string option \<Rightarrow> string option \<Rightarrow> string option" where
  "or_else a b = (if truthy a then a else b)"

text \<open>\<open>a || 'literal'\<close>, where the literal is a non-empty string.\<close>

definition or_default :: "string option \<Rightarrow> string \<Rightarrow> string" where
  "or_default a d = (case a of None \<Rightarrow> d | Some s \<Rightarrow> if s = [] then d else s)"

subsection \<open>Session tokens\<close>

text \<open>
  \<open>generateSessionToken\<close> fills a \<open>Uint8Array(32)\<close> from \<open>crypto.getRandomValues\<close> and
  joins \<open>byte.toString(16).padStart(2, '0')\<close> over the array. The random source is the
  function \<open>rnd\<close> from index to byte.
\<close>

definition hex_digit :: "nat \<Rightarrow> char" where
  "hex_digit d = ''0123456789abcdef'' ! d"

function toString16 :: "nat \<Rightarrow> string" where
  "toString16 n =
     (if n < 16 then [hex_digit n] else toString16 (n div 16) @ [hex_digit (n mod 16)])"
  by pat_completeness auto
termination
  by (relation "measure (\<lambda>n. n)") auto

definition padStart :: "nat \<Rightarrow> char \<Rightarrow> string \<Rightarrow> string" where
  "padStart n c s = replicate (n - length s) c @ s"

definition byte_hex :: "8 word \<Rightarrow> string" where
  "byte_hex byte = padStart 2 (CHR ''0'') (toString16 (unat byte))"

definition getRandomValues :: "(nat \<Rightarrow> 8 word) \<Rightarrow> nat \<Rightarrow> 8 word list" where
  "getRandomValues rnd len = map rnd [0..<len]"

definition generateSessionToken :: "(nat \<Rightarrow> 8 word) \<Rightarrow> string" where
  "generateSessionToken rnd = concat (map byte_hex (getRandomValues rnd 32))"

definition lower_hex :: "char \<Rightarrow> bool" where
  "lower_hex c = (c \<in> set ''0123456789abcdef'')"

subsection \<open>Tables, session store and results\<close>

text \<open>
  One record per table, with the columns the module reads or writes (column \<open>c\<close> of
  \<open>profiles\<close> is \<open>p_c\<close>, of \<open>user_roles\<close> \<open>r_c\<close>, of \<open>user_sessions\<close> \<open>s_c\<close>).
  Nullable columns are options. \<open>s_expires_at\<close> is the instant in milliseconds that
  the stored ISO string denotes. A table is the list of its rows; nothing is assumed
  about keys or uniqueness.
\<close>

record profile_row =
  p_id :: string
  p_user_id :: string
  p_email :: jsstring
  p_first_name :: string
  p_last_name :: string
  p_password_hash :: "string option"
  p_phone :: "string option"
  p_department_id :: "string option"
  p_designation_id :: "string option"
  p_date_of_birth :: "string option"
  p_joining_date :: "string option"
  p_employee_id :: "string option"
  p_reporting_manager :: "string option"

record role_row =
  r_user_id :: string
  r_role :: string

record session_row =
  s_profile_id :: string
  s_session_token :: string
  s_expires_at :: int

record world =
  profiles :: "profile_row list"
  user_roles :: "role_row list"
  user_sessions :: "session_row list"
  localStorage :: "string \<rightharpoonup> string"

text \<open>The interfaces \<open>TableUser\<close>, \<open>LoginResult\<close> and \<open>CreateUserResult\<close>.\<close>

record TableUser =
  u_id :: string
  u_profileId :: string
  u_email :: jsstring
  u_firstName :: string
  u_lastName :: string
  u_role :: string

record LoginResult =
  l_success :: bool
  l_user :: "TableUser option"
  l_error :: "string option"

record CreateUserResult =
  c_success :: bool
  c_userId :: "string option"
  c_profileId :: "string option"
  c_error :: "string option"

record UpdateResult =
  up_success :: bool
  up_error :: "string option"

text \<open>The optional \<open>additionalData\<close> argument of \<open>createTableUser\<close>.\<close>

record additional_data =
  a_phone :: "string option"
  a_department_id :: "string option"
  a_designation_id :: "string option"
  a_date_of_birth :: "string option"
  a_joining_date :: "string option"
  a_employee_id :: "string option"
  a_reporting_manager :: "string option"

datatype new_role = hr | employee

definition role_name :: "new_role \<Rightarrow> string" where
  "role_name r = (case r of hr \<Rightarrow> ''hr'' | employee \<Rightarrow> ''employee'')"

subsection \<open>The remote client\<close>

text \<open>
  Awaiting a request of the client yields a pair \<open>{data, error}\<close>; a request that
  fails (transport, constraint, policy) yields a non-null \<open>error\<close> and null \<open>data\<close>
  and the promise is not rejected (the module never asks for \<open>throwOnError\<close>). The
  environment says for each request whether it is \<open>Served\<close> or \<open>Faulted\<close> with a
  message; a faulted write leaves its table as it was.

  Of the browser interfaces, \<open>localStorage.setItem\<close> can throw (the quota is
  exceeded, or the storage refuses writes); \<open>getItem\<close>, \<open>removeItem\<close> and \<open>crypto\<close> are
  taken as total. So the \<open>catch\<close> clause of \<open>tableLogin\<close> is entered when one of its two
  \<open>setItem\<close> calls throws, and that of \<open>createTableUser\<close> when the body reads a field
  of \<open>null\<close>; no step inside the \<open>try\<close> blocks of \<open>getSessionUser\<close> and \<open>updatePassword\<close>
  throws. Every \<open>return\<close> inside the \<open>try\<close> blocks is a branch below.

  \<open>maybeSingle\<close> gives null data for no row, the row for one row and an error for
  several; \<open>single\<close> wants exactly one row.
\<close>

datatype outcome = Served | Faulted string

record 'a response =
  res_data :: "'a option"
  res_error :: "string option"

definition answer :: "'a option \<Rightarrow> 'a response" where
  "answer d = \<lparr>res_data = d, res_error = None\<rparr>"

definition failed :: "string \<Rightarrow> 'a response" where
  "failed m = \<lparr>res_data = None, res_error = Some m\<rparr>"

definition multiple_rows :: string where
  "multiple_rows = ''JSON object requested, multiple (or no) rows returned''"

definition maybeSingle :: "outcome \<Rightarrow> 'a list \<Rightarrow> 'a response" where
  "maybeSingle oc rows =
     (case oc of
        Faulted m \<Rightarrow> failed m
      | Served \<Rightarrow>
          (case rows of
             [] \<Rightarrow> answer None
           | [r] \<Rightarrow> answer (Some r)
           | _ \<Rightarrow> failed multiple_rows))"

definition single :: "outcome \<Rightarrow> 'a list \<Rightarrow> 'a response" where
  "single oc rows =
     (case oc of
        Faulted m \<Rightarrow> failed m
      | Served \<Rightarrow> (case rows of [r] \<Rightarrow> answer (Some r) | _ \<Rightarrow> failed multiple_rows))"

text \<open>\<open>rpc\<close>: the value the remote procedure computes, or the fault.\<close>

definition rpc :: "outcome \<Rightarrow> 'a option \<Rightarrow> 'a response" where
  "rpc oc v = (case oc of Faulted m \<Rightarrow> failed m | Served \<Rightarrow> answer v)"

text \<open>
  Writes return the response and the table after the request. \<open>insert_row\<close> is
  \<open>.insert(row)\<close>, \<open>delete_eq\<close> is \<open>.delete().eq(col, v)\<close> with the filter as a
  predicate, \<open>update_eq\<close> is \<open>.update(change).eq(col, v)\<close>; a served delete or update
  that matches no row is no error.
\<close>

definition insert_row :: "outcome \<Rightarrow> 'a \<Rightarrow> 'a list \<Rightarrow> unit response \<times> 'a list" where
  "insert_row oc row rows =
     (case oc of Faulted m \<Rightarrow> (failed m, rows) | Served \<Rightarrow> (answer None, rows @ [row]))"

definition delete_eq :: "outcome \<Rightarrow> ('a \<Rightarrow> bool) \<Rightarrow> 'a list \<Rightarrow> unit response \<times> 'a list" where
  "delete_eq oc matches rows =
     (case oc of
        Faulted m \<Rightarrow> (failed m, rows)
      | Served \<Rightarrow> (answer None, filter (\<lambda>r. \<not> matches r) rows))"

definition update_eq ::
  "outcome \<Rightarrow> ('a \<Rightarrow> bool) \<Rightarrow> ('a \<Rightarrow> 'a) \<Rightarrow> 'a list \<Rightarrow> unit response \<times> 'a list" where
  "update_eq oc matches change rows =
     (case oc of
        Faulted m \<Rightarrow> (failed m, rows)
      | Served \<Rightarrow> (answer None, map (\<lambda>r. if matches r then change r else r) rows))"

text \<open>
  \<open>localStorage.setItem\<close> and \<open>localStorage.removeItem\<close>. A \<open>setItem\<close> that throws
  writes nothing; \<open>None\<close> is the exception.
\<close>

datatype store_outcome = Stored | Throws

definition setItem :: "store_outcome \<Rightarrow> string \<Rightarrow> string \<Rightarrow> world \<Rightarrow> world option" where
  "setItem oc k v w =
     (case oc of
        Throws \<Rightarrow> None
      | Stored \<Rightarrow> Some (w\<lparr>localStorage := (localStorage w)(k \<mapsto> v)\<rparr>))"

definition removeItem :: "string \<Rightarrow> world \<Rightarrow> world" where
  "removeItem k w = w\<lparr>localStorage := (localStorage w)(k := None)\<rparr>"

subsection \<open>tableLogin\<close>

text \<open>
  The environment of one call: the engine's lower-casing beyond Latin-1, the outcome
  of each request in source order, the function \<open>verify_password\<close> computes on the
  server, the random bytes, the clock (milliseconds) and the outcome of the two
  \<open>setItem\<close> calls. \<open>li_add_days t n\<close> is the instant that
  \<open>d.setDate(d.getDate() + n)\<close> gives for the instant \<open>t\<close> in the browser's time zone.

  The \<open>catch\<close> clause returns "Login failed. Please try again." and undoes nothing.
\<close>

record login_env =
  li_unicode_lower :: "jsstring \<Rightarrow> jsstring"
  li_profile_lookup :: outcome
  li_verify :: outcome
  li_verify_password :: "string \<Rightarrow> string \<Rightarrow> bool"
  li_role_lookup :: outcome
  li_random :: "nat \<Rightarrow> 8 word"
  li_now :: int
  li_add_days :: "int \<Rightarrow> int \<Rightarrow> int"
  li_session_insert :: outcome
  li_set_token :: store_outcome
  li_set_user_id :: store_outcome

definition login_failure :: "string \<Rightarrow> LoginResult" where
  "login_failure m = \<lparr>l_success = False, l_user = None, l_error = Some m\<rparr>"

definition tableLogin :: "login_env \<Rightarrow> jsstring \<Rightarrow> string \<Rightarrow> world \<Rightarrow> LoginResult \<times> world" where
  "tableLogin env email password w =
     (let r1 = maybeSingle (li_profile_lookup env)
                 (filter (\<lambda>p. p_email p = trim (toLowerCase (li_unicode_lower env) email))
                    (profiles w))
      in if res_error r1 \<noteq> None then (login_failure ''Login failed. Please try again.'', w)
      else case res_data r1 of
        None \<Rightarrow> (login_failure ''Invalid email or password'', w)
      | Some profile \<Rightarrow>
          if \<not> truthy (p_password_hash profile)
          then (login_failure ''Account not properly configured. Please contact admin.'', w)
          else
            let r2 = rpc (li_verify env)
                       (map_option (li_verify_password env password) (p_password_hash profile))
            in if res_error r2 \<noteq> None
               then (login_failure ''Login failed. Please try again.'', w)
            else if res_data r2 \<noteq> Some True
               then (login_failure ''Invalid email or password'', w)
            else
              let r3 = maybeSingle (li_role_lookup env)
                         (filter (\<lambda>r. r_user_id r = p_user_id profile) (user_roles w))
              in (case (res_error r3, res_data r3) of
                (None, Some roleData) \<Rightarrow>
                  let sessionToken = generateSessionToken (li_random env);
                      expiresAt = li_add_days env (li_now env) 7;
                      (r4, sessions) = insert_row (li_session_insert env)
                          \<lparr>s_profile_id = p_id profile, s_session_token = sessionToken,
                           s_expires_at = expiresAt\<rparr> (user_sessions w);
                      w4 = w\<lparr>user_sessions := sessions\<rparr>
                  in if res_error r4 \<noteq> None
                     then (login_failure ''Failed to create session'', w4)
                     else
                       (case setItem (li_set_token env) ''hrms_session_token'' sessionToken w4 of
                          None \<Rightarrow> (login_failure ''Login failed. Please try again.'', w4)
                        | Some w5 \<Rightarrow>
                            (case setItem (li_set_user_id env) ''hrms_user_id''
                                    (p_user_id profile) w5 of
                               None \<Rightarrow> (login_failure ''Login failed. Please try again.'', w5)
                             | Some w6 \<Rightarrow>
                                 (\<lparr>l_success = True,
                                   l_user = Some \<lparr>u_id = p_user_id profile,
                                      u_profileId = p_id profile,
                                      u_email = p_email profile,
                                      u_firstName = p_first_name profile,
                                      u_lastName = p_last_name profile,
                                      u_role = r_role roleData\<rparr>,
                                   l_error = None\<rparr>, w6)))
              | _ \<Rightarrow> (login_failure ''User role not found'', w)))"

subsection \<open>tableLogout and getSessionUser\<close>

definition tableLogout :: "outcome \<Rightarrow> world \<Rightarrow> world" where
  "tableLogout session_delete w =
     (let sessionToken = localStorage w ''hrms_session_token'';
          w1 = (if truthy sessionToken
                then w\<lparr>user_sessions :=
                        snd (delete_eq session_delete
                               (\<lambda>s. Some (s_session_token s) = sessionToken) (user_sessions w))\<rparr>
                else w)
      in removeItem ''hrms_user_id'' (removeItem ''hrms_session_token'' w1))"

record session_env =
  gs_session_lookup :: outcome
  gs_now :: int
  gs_session_delete :: outcome
  gs_profile_lookup :: outcome
  gs_role_lookup :: outcome

definition getSessionUser :: "session_env \<Rightarrow> world \<Rightarrow> TableUser option \<times> world" where
  "getSessionUser env w =
     (let sessionToken = localStorage w ''hrms_session_token''
      in if \<not> truthy sessionToken then (None, w)
      else
        let r1 = maybeSingle (gs_session_lookup env)
                   (filter (\<lambda>s. Some (s_session_token s) = sessionToken) (user_sessions w))
        in case (res_error r1, res_data r1) of
          (None, Some session) \<Rightarrow>
            if s_expires_at session < gs_now env
            then
              (None,
               removeItem ''hrms_user_id'' (removeItem ''hrms_session_token''
                 (w\<lparr>user_sessions :=
                      snd (delete_eq (gs_session_delete env)
                             (\<lambda>s. Some (s_session_token s) = sessionToken) (user_sessions w))\<rparr>)))
            else
              let r3 = maybeSingle (gs_profile_lookup env)
                         (filter (\<lambda>p. p_id p = s_profile_id session) (profiles w))
              in (case (res_error r3, res_data r3) of
                    (None, Some profile) \<Rightarrow>
                      let r4 = maybeSingle (gs_role_lookup env)
                                 (filter (\<lambda>r. r_user_id r = p_user_id profile) (user_roles w))
                      in (Some \<lparr>u_id = p_user_id profile, u_profileId = p_id profile,
                                u_email = p_email profile,
                                u_firstName = p_first_name profile,
                                u_lastName = p_last_name profile,
                                u_role = or_default (map_option r_role (res_data r4))
                                           ''employee''\<rparr>, w)
                  | _ \<Rightarrow> (None, w))
        | _ \<Rightarrow> (None, removeItem ''hrms_user_id'' (removeItem ''hrms_session_token'' w)))"

subsection \<open>createTableUser and updatePassword\<close>

text \<open>
  \<open>cu_unicode_lower\<close> is the engine's lower-casing beyond Latin-1,
  \<open>cu_hash_password\<close> is what \<open>hash_password\<close> returns for this call (it salts, so it
  is not a function of the password across calls), \<open>cu_randomUUID\<close> the value of
  \<open>crypto.randomUUID()\<close>, \<open>cu_today\<close> the date part of \<open>new Date().toISOString()\<close>
  and \<open>cu_new_profile_id\<close> the id the database gives the inserted Profile.
  \<open>.insert(row).select('id').single()\<close> returns the inserted row.

  Reading \<open>profile.id\<close> of a null \<open>profile\<close> throws, after the Role insert has been
  awaited; the \<open>catch\<close> clause turns that into "Failed to create user".
\<close>

record create_env =
  cu_unicode_lower :: "jsstring \<Rightarrow> jsstring"
  cu_exists_lookup :: outcome
  cu_hash :: outcome
  cu_hash_password :: "string \<Rightarrow> string option"
  cu_randomUUID :: string
  cu_today :: string
  cu_profile_insert :: outcome
  cu_new_profile_id :: string
  cu_role_insert :: outcome
  cu_rollback_delete :: outcome

definition create_failure :: "string \<Rightarrow> CreateUserResult" where
  "create_failure m = \<lparr>c_success = False, c_userId = None, c_profileId = None, c_error = Some m\<rparr>"

definition field_of :: "additional_data option \<Rightarrow> (additional_data \<Rightarrow> string option) \<Rightarrow> string option" where
  "field_of additionalData sel = (case additionalData of None \<Rightarrow> None | Some a \<Rightarrow> sel a)"

definition insert_returning :: "outcome \<Rightarrow> 'a \<Rightarrow> 'a list \<Rightarrow> 'a response \<times> 'a list" where
  "insert_returning oc row rows =
     (case oc of
        Faulted m \<Rightarrow> (failed m, rows)
      | Served \<Rightarrow> (single Served [row], rows @ [row]))"

definition createTableUser ::
  "create_env \<Rightarrow> jsstring \<Rightarrow> string \<Rightarrow> string \<Rightarrow> string \<Rightarrow> new_role \<Rightarrow>
   additional_data option \<Rightarrow> world \<Rightarrow> CreateUserResult \<times> world" where
  "createTableUser env email password firstName lastName role additionalData w =
     (let r1 = maybeSingle (cu_exists_lookup env)
                 (filter (\<lambda>p. p_email p = trim (toLowerCase (cu_unicode_lower env) email))
                    (profiles w))
      in if res_data r1 \<noteq> None then (create_failure ''Email already registered'', w)
      else
        let r2 = rpc (cu_hash env) (cu_hash_password env password)
        in if res_error r2 \<noteq> None \<or> \<not> truthy (res_data r2)
           then (create_failure ''Failed to secure password'', w)
        else
          let userId = cu_randomUUID env;
              (r3, profiles3) = insert_returning (cu_profile_insert env)
                  \<lparr>p_id = cu_new_profile_id env,
                   p_user_id = userId,
                   p_email = trim (toLowerCase (cu_unicode_lower env) email),
                   p_first_name = firstName,
                   p_last_name = lastName,
                   p_password_hash = res_data r2,
                   p_phone = or_else (field_of additionalData a_phone) None,
                   p_department_id = or_else (field_of additionalData a_department_id) None,
                   p_designation_id = or_else (field_of additionalData a_designation_id) None,
                   p_date_of_birth = or_else (field_of additionalData a_date_of_birth) None,
                   p_joining_date =
                     or_else (field_of additionalData a_joining_date) (Some (cu_today env)),
                   p_employee_id = or_else (field_of additionalData a_employee_id) None,
                   p_reporting_manager =
                     or_else (field_of additionalData a_reporting_manager) None\<rparr>
                  (profiles w);
              w3 = w\<lparr>profiles := profiles3\<rparr>
          in case res_error r3 of
            Some message \<Rightarrow> (create_failure message, w3)
          | None \<Rightarrow>
              let (r4, roles4) = insert_row (cu_role_insert env)
                      \<lparr>r_user_id = userId, r_role = role_name role\<rparr> (user_roles w3);
                  w4 = w3\<lparr>user_roles := roles4\<rparr>
              in (case res_data r3 of
                None \<Rightarrow> (create_failure ''Failed to create user'', w4)
              | Some profile \<Rightarrow>
                  if res_error r4 \<noteq> None
                  then
                    (create_failure ''Failed to assign role'',
                     w4\<lparr>profiles :=
                          snd (delete_eq (cu_rollback_delete env)
                                 (\<lambda>p. p_id p = p_id profile) (profiles w4))\<rparr>)
                  else
                    (\<lparr>c_success = True, c_userId = Some userId,
                      c_profileId = Some (p_id profile), c_error = None\<rparr>, w4)))"

record update_env =
  ue_hash :: outcome
  ue_hash_password :: "string \<Rightarrow> string option"
  ue_update :: outcome

definition updatePassword ::
  "update_env \<Rightarrow> string \<Rightarrow> string \<Rightarrow> world \<Rightarrow> UpdateResult \<times> world" where
  "updatePassword env profileId newPassword w =
     (let r1 = rpc (ue_hash env) (ue_hash_password env newPassword)
      in if res_error r1 \<noteq> None \<or> \<not> truthy (res_data r1)
         then (\<lparr>up_success = False, up_error = Some ''Failed to secure password''\<rparr>, w)
      else
        let (r2, profiles2) = update_eq (ue_update env) (\<lambda>p. p_id p = profileId)
                                (\<lambda>p. p\<lparr>p_password_hash := res_data r1\<rparr>) (profiles w);
            w2 = w\<lparr>profiles := profiles2\<rparr>
        in case res_error r2 of
          Some message \<Rightarrow> (\<lparr>up_success = False, up_error = Some message\<rparr>, w2)
        | None \<Rightarrow> (\<lparr>up_success = True, up_error = None\<rparr>, w2))"

subsection \<open>Notions used to state the properties\<close>

text \<open>
  The Profile row that \<open>createTableUser\<close> sends to \<open>profiles\<close>, as a function of its
  arguments and of the hash it obtained.
\<close>

definition inserted_profile ::
  "create_env \<Rightarrow> jsstring \<Rightarrow> string \<Rightarrow> string \<Rightarrow> string option \<Rightarrow> additional_data option \<Rightarrow> profile_row" where
  "inserted_profile env email firstName lastName passwordHash additionalData =
     \<lparr>p_id = cu_new_profile_id env,
      p_user_id = cu_randomUUID env,
      p_email = trim (toLowerCase (cu_unicode_lower env) email),
      p_first_name = firstName,
      p_last_name = lastName,
      p_password_hash = passwordHash,
      p_phone = or_else (field_of additionalData a_phone) None,
      p_department_id = or_else (field_of additionalData a_department_id) None,
      p_designation_id = or_else (field_of additionalData a_designation_id) None,
      p_date_of_birth = or_else (field_of additionalData a_date_of_birth) None,
      p_joining_date = or_else (field_of additionalData a_joining_date) (Some (cu_today env)),
      p_employee_id = or_else (field_of additionalData a_employee_id) None,
      p_reporting_manager = or_else (field_of additionalData a_reporting_manager) None\<rparr>"



definition lower_case_letters :: jsstring where
  "lower_case_letters = js ''abcdefghijklmnopqrstuvwxyz'' @ [224..<247] @ [248..<255]"

definition upper_case_letters :: jsstring where
  "upper_case_letters = js ''ABCDEFGHIJKLMNOPQRSTUVWXYZ'' @ [192..<215] @ [216..<223]"

text \<open>The same character, or the two case forms of one letter.\<close>

definition same_letter :: "nat \<Rightarrow> nat \<Rightarrow> bool" where
  "same_letter x y =
     (x = y \<or> (x, y) \<in> set (zip lower_case_letters upper_case_letters)
            \<or> (y, x) \<in> set (zip lower_case_letters upper_case_letters))"

text \<open>
  Equal up to case: letter by letter, where the sharp s (DF) has the upper-case form
  SS, two characters long.
\<close>

inductive equal_up_to_case :: "jsstring \<Rightarrow> jsstring \<Rightarrow> bool" where
  nil: "equal_up_to_case [] []"
| letter: "same_letter x y \<Longrightarrow> equal_up_to_case xs ys \<Longrightarrow> equal_up_to_case (x # xs) (y # ys)"
| sharp_s_left: "equal_up_to_case xs ys \<Longrightarrow> equal_up_to_case (223 # xs) (83 # 83 # ys)"
| sharp_s_right: "equal_up_to_case xs ys \<Longrightarrow> equal_up_to_case (83 # 83 # xs) (223 # ys)"




subsection \<open>Scenarios\<close>

text \<open>
  A small directory used to run the operations on concrete inputs: one Profile with
  the role "hr", a password check that accepts the password \<open>secret\<close>, and an
  environment in which every request is served.
\<close>

definition alice :: profile_row where
  "alice = \<lparr>p_id = ''p-1'', p_user_id = ''u-1'', p_email = js ''a@b.com'',
     p_first_name = ''Ada'', p_last_name = ''Byron'', p_password_hash = Some ''h-secret'',
     p_phone = None, p_department_id = None, p_designation_id = None, p_date_of_birth = None,
     p_joining_date = Some ''2024-01-01'', p_employee_id = None, p_reporting_manager = None\<rparr>"

definition office :: world where
  "office = \<lparr>profiles = [alice], user_roles = [\<lparr>r_user_id = ''u-1'', r_role = ''hr''\<rparr>],
     user_sessions = [], localStorage = Map.empty\<rparr>"

definition verify_demo :: "string \<Rightarrow> string \<Rightarrow> bool" where
  "verify_demo password h = (h = ''h-'' @ password)"

definition login_served :: "(nat \<Rightarrow> 8 word) \<Rightarrow> int \<Rightarrow> login_env" where
  "login_served rnd t = \<lparr>li_unicode_lower = (\<lambda>s. s), li_profile_lookup = Served,
     li_verify = Served, li_verify_password = verify_demo, li_role_lookup = Served,
     li_random = rnd, li_now = t, li_add_days = (\<lambda>t n. t + n * 86400000),
     li_session_insert = Served, li_set_token = Stored, li_set_user_id = Stored\<rparr>"




text \<open>Session checks: every request served, the clock at \<open>t\<close>.\<close>

definition session_served :: "int \<Rightarrow> session_env" where
  "session_served t = \<lparr>gs_session_lookup = Served, gs_now = t, gs_session_delete = Served,
     gs_profile_lookup = Served, gs_role_lookup = Served\<rparr>"

text \<open>A browser holding the token of a Session that expires at 500.\<close>

definition old_session :: session_row where
  "old_session = \<lparr>s_profile_id = ''p-1'', s_session_token = ''tok-1'', s_expires_at = 500\<rparr>"

definition signed_in :: world where
  "signed_in = office\<lparr>user_sessions := [old_session],
     localStorage := [''hrms_session_token'' \<mapsto> ''tok-1'', ''hrms_user_id'' \<mapsto> ''u-1'']\<rparr>"

text \<open>The same browser when the user has no Role-assignment row.\<close>

definition no_role :: world where
  "no_role = signed_in\<lparr>user_roles := []\<rparr>"

text \<open>At time 1000 the Session has expired; here the delete request fails.\<close>

definition delete_fails :: session_env where
  "delete_fails = (session_served 1000)\<lparr>gs_session_delete := Faulted ''network''\<rparr>"

text \<open>Sign-up environments: all served, then with single requests failing.\<close>

definition create_served :: create_env where
  "create_served = \<lparr>cu_unicode_lower = (\<lambda>s. s), cu_exists_lookup = Served, cu_hash = Served,
     cu_hash_password = (\<lambda>password. Some (''h-'' @ password)),
     cu_randomUUID = ''u-2'', cu_today = ''2024-06-01'', cu_profile_insert = Served,
     cu_new_profile_id = ''p-2'', cu_role_insert = Served, cu_rollback_delete = Served\<rparr>"

definition role_insert_fails :: create_env where
  "role_insert_fails = create_served\<lparr>cu_role_insert := Faulted ''denied''\<rparr>"

definition rollback_fails :: create_env where
  "rollback_fails = role_insert_fails\<lparr>cu_rollback_delete := Faulted ''network''\<rparr>"

definition check_fails :: create_env where
  "check_fails = create_served\<lparr>cu_exists_lookup := Faulted ''network''\<rparr>"

definition check_fails_unique :: create_env where
  "check_fails_unique = check_fails\<lparr>cu_profile_insert := Faulted ''duplicate key value''\<rparr>"

text \<open>A password update in which both requests are served.\<close>

definition update_served :: update_env where
  "update_served = \<lparr>ue_hash = Served, ue_hash_password = (\<lambda>password. Some (''h-'' @ password)),
     ue_update = Served\<rparr>"



section \<open>Properties\<close>

subsection \<open>Hexadecimal rendering of the token\<close>

declare toString16.simps [simp del]

lemma toString16_small: "n < 16 \<Longrightarrow> toString16 n = [hex_digit n]"
  by (subst toString16.simps) simp

lemma toString16_byte: "16 \<le> n \<Longrightarrow> n < 256 \<Longrightarrow> toString16 n = [hex_digit (n div 16), hex_digit (n mod 16)]"
proof -
  assume a: "16 \<le> n" and b: "n < 256"
  from b have "n div 16 < 16" by simp
  then have "toString16 (n div 16) = [hex_digit (n div 16)]" by (rule toString16_small)
  with a show ?thesis by (subst toString16.simps) simp
qed

lemma hex_digit_0: "hex_digit 0 = CHR ''0''"
  by (simp add: hex_digit_def)

lemma byte_hex_eq: "byte_hex b = [hex_digit (unat b div 16), hex_digit (unat b mod 16)]"
proof -
  have lt: "unat b < 256" using unsigned_less [of b] by simp
  show ?thesis
  proof (cases "unat b < 16")
    case True
    then show ?thesis
      by (simp add: byte_hex_def padStart_def toString16_small hex_digit_0)
  next
    case False
    with lt show ?thesis
      by (simp add: byte_hex_def padStart_def toString16_byte)
  qed
qed

lemma hex_digit_lower: "d < 16 \<Longrightarrow> lower_hex (hex_digit d)"
  unfolding lower_hex_def hex_digit_def by (rule nth_mem) simp

lemma hex_digit_inj: "a < 16 \<Longrightarrow> b < 16 \<Longrightarrow> hex_digit a = hex_digit b \<Longrightarrow> a = b"
proof -
  assume a: "a < 16" and b: "b < 16" and e: "hex_digit a = hex_digit b"
  have d: "distinct ''0123456789abcdef''" by simp
  have l: "length ''0123456789abcdef'' = 16" by simp
  from d a b e l show ?thesis
    unfolding hex_digit_def by (simp add: nth_eq_iff_index_eq)
qed

lemma byte_hex_inj: "byte_hex a = byte_hex b \<Longrightarrow> a = b"
proof -
  assume e: "byte_hex a = byte_hex b"
  have la: "unat a < 256" using unsigned_less [of a] by simp
  have lb: "unat b < 256" using unsigned_less [of b] by simp
  from e have e1: "hex_digit (unat a div 16) = hex_digit (unat b div 16)"
    and e2: "hex_digit (unat a mod 16) = hex_digit (unat b mod 16)"
    by (simp_all add: byte_hex_eq)
  from la lb e1 have d: "unat a div 16 = unat b div 16"
    by (intro hex_digit_inj) simp_all
  from e2 have m: "unat a mod 16 = unat b mod 16"
    by (intro hex_digit_inj) simp_all
  from d m have "unat a = unat b"
    by (metis div_mult_mod_eq)
  then show ?thesis by (simp add: word_unat_eq_iff)
qed

lemma length_byte_hex: "length (byte_hex b) = 2"
  by (simp add: byte_hex_eq)

lemma length_chunks: "(\<And>x. length (f x) = k) \<Longrightarrow> length (concat (map f xs)) = k * length xs"
  by (induction xs) simp_all

lemma nth_chunk:
  "(\<And>x. length (f x) = k) \<Longrightarrow> i < length xs \<Longrightarrow> take k (drop (k * i) (concat (map f xs))) = f (xs ! i)"
proof (induction xs arbitrary: i)
  case Nil
  then show ?case by simp
next
  case (Cons x xs)
  show ?case
  proof (cases i)
    case 0
    with Cons.prems(1) show ?thesis by simp
  next
    case (Suc j)
    with Cons.prems have "j < length xs" by simp
    from Cons.IH [OF Cons.prems(1) this] Suc Cons.prems(1) show ?thesis by simp
  qed
qed

lemma token_chunk: "i < 32 \<Longrightarrow> take 2 (drop (2 * i) (generateSessionToken rnd)) = byte_hex (rnd i)"
  using nth_chunk [of byte_hex 2 i "map rnd [0..<32]"]
  by (simp add: generateSessionToken_def getRandomValues_def length_byte_hex)

lemma token_length: "length (generateSessionToken rnd) = 64"
  using length_chunks [of byte_hex 2 "map rnd [0..<32]"]
  by (simp add: generateSessionToken_def getRandomValues_def length_byte_hex)

lemma byte_hex_lower: "c \<in> set (byte_hex b) \<Longrightarrow> lower_hex c"
proof -
  have "unat b < 256" using unsigned_less [of b] by simp
  then have "unat b div 16 < 16" by simp
  moreover have "unat b mod 16 < 16" by simp
  moreover assume "c \<in> set (byte_hex b)"
  ultimately show ?thesis
    by (auto simp: byte_hex_eq intro: hex_digit_lower)
qed

lemma token_lower_hex: "c \<in> set (generateSessionToken rnd) \<Longrightarrow> lower_hex c"
  by (auto simp: generateSessionToken_def getRandomValues_def dest: byte_hex_lower)

lemma token_eq_iff: "generateSessionToken r1 = generateSessionToken r2 \<longleftrightarrow> (\<forall>i<32. r1 i = r2 i)"
proof
  assume e: "generateSessionToken r1 = generateSessionToken r2"
  show "\<forall>i<32. r1 i = r2 i"
  proof (intro allI impI)
    fix i :: nat assume i: "i < 32"
    from i have "byte_hex (r1 i) = take 2 (drop (2 * i) (generateSessionToken r1))"
      by (simp add: token_chunk)
    also have "\<dots> = byte_hex (r2 i)" using i by (simp add: e token_chunk)
    finally show "r1 i = r2 i" by (rule byte_hex_inj)
  qed
next
  assume "\<forall>i<32. r1 i = r2 i"
  then have "map r1 [0..<32] = map r2 [0..<32]" by simp
  then show "generateSessionToken r1 = generateSessionToken r2"
    by (simp only: generateSessionToken_def getRandomValues_def)
qed


subsection \<open>What a login does to the world\<close>

lemmas client_defs = maybeSingle_def single_def rpc_def insert_row_def delete_eq_def update_eq_def
  insert_returning_def answer_def failed_def


lemma tableLogin_success:
  assumes "l_success (fst (tableLogin env email password w))"
  shows "\<exists>profile roleData.
     filter (\<lambda>p. p_email p = trim (toLowerCase (li_unicode_lower env) email)) (profiles w)
       = [profile] \<and>
     filter (\<lambda>r. r_user_id r = p_user_id profile) (user_roles w) = [roleData] \<and>
     tableLogin env email password w =
      (\<lparr>l_success = True,
        l_user = Some \<lparr>u_id = p_user_id profile, u_profileId = p_id profile,
                      u_email = p_email profile, u_firstName = p_first_name profile,
                      u_lastName = p_last_name profile, u_role = r_role roleData\<rparr>,
        l_error = None\<rparr>,
       w\<lparr>user_sessions := user_sessions w @
              [\<lparr>s_profile_id = p_id profile,
                s_session_token = generateSessionToken (li_random env),
                s_expires_at = li_add_days env (li_now env) 7\<rparr>],
         localStorage := (localStorage w)
              (''hrms_session_token'' \<mapsto> generateSessionToken (li_random env),
               ''hrms_user_id'' \<mapsto> p_user_id profile)\<rparr>)"
  using assms
  by (auto simp: tableLogin_def Let_def client_defs login_failure_def setItem_def
      split: outcome.splits store_outcome.splits list.splits option.splits if_splits prod.splits)

lemma tableLogin_success_world:
  assumes "l_success (fst (tableLogin env email password w))"
  shows "localStorage (snd (tableLogin env email password w)) ''hrms_session_token''
           = Some (generateSessionToken (li_random env))"
    and "map s_session_token (user_sessions (snd (tableLogin env email password w)))
           = map s_session_token (user_sessions w) @ [generateSessionToken (li_random env)]"
proof -
  from tableLogin_success [OF assms] obtain profile :: profile_row and roleData :: role_row where
    eq: "tableLogin env email password w =
      (\<lparr>l_success = True,
        l_user = Some \<lparr>u_id = p_user_id profile, u_profileId = p_id profile,
                      u_email = p_email profile, u_firstName = p_first_name profile,
                      u_lastName = p_last_name profile, u_role = r_role roleData\<rparr>,
        l_error = None\<rparr>,
       w\<lparr>user_sessions := user_sessions w @
              [\<lparr>s_profile_id = p_id profile,
                s_session_token = generateSessionToken (li_random env),
                s_expires_at = li_add_days env (li_now env) 7\<rparr>],
         localStorage := (localStorage w)
              (''hrms_session_token'' \<mapsto> generateSessionToken (li_random env),
               ''hrms_user_id'' \<mapsto> p_user_id profile)\<rparr>)"
    by blast
  show "localStorage (snd (tableLogin env email password w)) ''hrms_session_token''
           = Some (generateSessionToken (li_random env))"
    by (simp add: eq)
  show "map s_session_token (user_sessions (snd (tableLogin env email password w)))
           = map s_session_token (user_sessions w) @ [generateSessionToken (li_random env)]"
    by (simp add: eq)
qed

text \<open>
  C4. The token is 64 characters long, every character is a lower-case hexadecimal
  digit, and characters \<open>2i\<close> and \<open>2i+1\<close> are the two digits of byte \<open>i\<close>, the
  high digit first (a byte below 16 gets a leading \<open>0\<close>). When two logins in a row for
  the same account both succeed and their random arrays differ at some index, the
  two tokens they store and insert differ.
\<close>

theorem C4_session_token:
  "length (generateSessionToken rnd) = 64
   \<and> (\<forall>c \<in> set (generateSessionToken rnd). lower_hex c)
   \<and> (\<forall>i<32. take 2 (drop (2 * i) (generateSessionToken rnd))
                 = [hex_digit (unat (rnd i) div 16), hex_digit (unat (rnd i) mod 16)])
   \<and> (l_success (fst (tableLogin env1 email password w))
        \<and> l_success (fst (tableLogin env2 email password (snd (tableLogin env1 email password w))))
        \<and> (\<exists>i<32. li_random env1 i \<noteq> li_random env2 i)
      \<longrightarrow> generateSessionToken (li_random env1) \<noteq> generateSessionToken (li_random env2)
        \<and> localStorage (snd (tableLogin env1 email password w)) ''hrms_session_token''
              = Some (generateSessionToken (li_random env1))
        \<and> localStorage (snd (tableLogin env2 email password (snd (tableLogin env1 email password w))))
              ''hrms_session_token'' = Some (generateSessionToken (li_random env2))
        \<and> map s_session_token
              (user_sessions (snd (tableLogin env2 email password (snd (tableLogin env1 email password w)))))
            = map s_session_token (user_sessions w)
              @ [generateSessionToken (li_random env1), generateSessionToken (li_random env2)])"
proof (intro conjI impI)
  show "length (generateSessionToken rnd) = 64" by (rule token_length)
  show "\<forall>c \<in> set (generateSessionToken rnd). lower_hex c" by (simp add: token_lower_hex)
  show "\<forall>i<32. take 2 (drop (2 * i) (generateSessionToken rnd))
                 = [hex_digit (unat (rnd i) div 16), hex_digit (unat (rnd i) mod 16)]"
    by (simp add: token_chunk byte_hex_eq)
next
  assume a: "l_success (fst (tableLogin env1 email password w))
        \<and> l_success (fst (tableLogin env2 email password (snd (tableLogin env1 email password w))))
        \<and> (\<exists>i<32. li_random env1 i \<noteq> li_random env2 i)"
  then show "generateSessionToken (li_random env1) \<noteq> generateSessionToken (li_random env2)"
    by (simp add: token_eq_iff)
  from a show "localStorage (snd (tableLogin env1 email password w)) ''hrms_session_token''
              = Some (generateSessionToken (li_random env1))"
    by (simp add: tableLogin_success_world)
  from a show "localStorage (snd (tableLogin env2 email password (snd (tableLogin env1 email password w))))
              ''hrms_session_token'' = Some (generateSessionToken (li_random env2))"
    by (simp add: tableLogin_success_world)
  from a show "map s_session_token
              (user_sessions (snd (tableLogin env2 email password (snd (tableLogin env1 email password w)))))
            = map s_session_token (user_sessions w)
              @ [generateSessionToken (li_random env1), generateSessionToken (li_random env2)]"
    by (simp add: tableLogin_success_world)
qed

text \<open>
  The two logins of the scenario: random arrays all 0 and all 255.
\<close>

theorem C4_session_token_witness:
  "l_success (fst (tableLogin (login_served (\<lambda>_. 0) 1000) (js ''a@b.com'') ''secret'' office))
   \<and> l_success (fst (tableLogin (login_served (\<lambda>_. 255) 2000) (js ''a@b.com'') ''secret''
         (snd (tableLogin (login_served (\<lambda>_. 0) 1000) (js ''a@b.com'') ''secret'' office))))
   \<and> generateSessionToken (\<lambda>_. 0) \<noteq> generateSessionToken (\<lambda>_. 255)
   \<and> length (generateSessionToken (\<lambda>_. 255)) = 64"
proof -
  let ?e1 = "login_served (\<lambda>_. 0) 1000" and ?e2 = "login_served (\<lambda>_. 255) 2000"
  have s1: "l_success (fst (tableLogin ?e1 (js ''a@b.com'') ''secret'' office))"
    by code_simp
  have s2: "l_success (fst (tableLogin ?e2 (js ''a@b.com'') ''secret''
         (snd (tableLogin ?e1 (js ''a@b.com'') ''secret'' office))))"
    by code_simp
  have d: "\<exists>i<32. li_random ?e1 i \<noteq> li_random ?e2 i"
    by (rule exI [of _ 0]) (simp add: login_served_def)
  have r: "li_random ?e1 = (\<lambda>_. 0)" "li_random ?e2 = (\<lambda>_. 255)"
    by (simp_all add: login_served_def)
  from C4_session_token [of "\<lambda>_. 255" ?e1 "js ''a@b.com''" "''secret''" office ?e2] s1 s2 d
  have "generateSessionToken (li_random ?e1) \<noteq> generateSessionToken (li_random ?e2)"
    and "length (generateSessionToken (\<lambda>_. 255 :: 8 word)) = 64"
    by blast+
  with s1 s2 r show ?thesis by simp
qed

subsection \<open>Failed and successful logins\<close>





text \<open>
  C1. When the Profile lookup is served and finds no row for the normalized email,
  and when it is served, finds one Profile with a password hash, and the served
  verification answers false, the call returns the same result,
  \<open>{success: false, error: "Invalid email or password"}\<close>, and leaves the world as it
  was.
\<close>

theorem C1_invalid_credentials_indistinguishable:
  assumes absent: "li_profile_lookup env1 = Served"
      "filter (\<lambda>p. p_email p = trim (toLowerCase (li_unicode_lower env1) email1)) (profiles w1) = []"
    and present: "li_profile_lookup env2 = Served"
      "filter (\<lambda>p. p_email p = trim (toLowerCase (li_unicode_lower env2) email2)) (profiles w2) = [profile]"
      "p_password_hash profile = Some h" "h \<noteq> []"
    and wrong: "li_verify env2 = Served" "\<not> li_verify_password env2 password2 h"
  shows "tableLogin env1 email1 password1 w1
           = (\<lparr>l_success = False, l_user = None, l_error = Some ''Invalid email or password''\<rparr>, w1)
       \<and> tableLogin env2 email2 password2 w2
           = (\<lparr>l_success = False, l_user = None, l_error = Some ''Invalid email or password''\<rparr>, w2)
       \<and> fst (tableLogin env1 email1 password1 w1) = fst (tableLogin env2 email2 password2 w2)"
proof -
  from absent have a: "tableLogin env1 email1 password1 w1
           = (\<lparr>l_success = False, l_user = None, l_error = Some ''Invalid email or password''\<rparr>, w1)"
    by (simp add: tableLogin_def Let_def maybeSingle_def answer_def login_failure_def)
  from present wrong have b: "tableLogin env2 email2 password2 w2
           = (\<lparr>l_success = False, l_user = None, l_error = Some ''Invalid email or password''\<rparr>, w2)"
    by (simp add: tableLogin_def Let_def maybeSingle_def rpc_def answer_def login_failure_def truthy_def)
  from a b show ?thesis by simp
qed

text \<open>
  An unknown address and a wrong password give the same result.
\<close>

theorem C1_invalid_credentials_indistinguishable_witness:
  "tableLogin (login_served (\<lambda>_. 7) 1000) (js ''nobody@b.com'') ''secret'' office
     = (\<lparr>l_success = False, l_user = None, l_error = Some ''Invalid email or password''\<rparr>, office)
   \<and> tableLogin (login_served (\<lambda>_. 7) 1000) (js ''a@b.com'') ''wrong'' office
     = (\<lparr>l_success = False, l_user = None, l_error = Some ''Invalid email or password''\<rparr>, office)"
proof -
  let ?env = "login_served (\<lambda>_. 7) 1000"
  have 1: "li_profile_lookup ?env = Served" "li_verify ?env = Served"
    by (simp_all add: login_served_def)
  have 2: "filter (\<lambda>p. p_email p = trim (toLowerCase (li_unicode_lower ?env) (js ''nobody@b.com''))) (profiles office) = []"
    by code_simp
  have 3: "filter (\<lambda>p. p_email p = trim (toLowerCase (li_unicode_lower ?env) (js ''a@b.com''))) (profiles office) = [alice]"
    by code_simp
  have 4: "p_password_hash alice = Some ''h-secret''" "''h-secret'' \<noteq> []"
    by (simp_all add: alice_def)
  have 5: "\<not> li_verify_password ?env ''wrong'' ''h-secret''"
    by (simp add: login_served_def verify_demo_def)
  from C1_invalid_credentials_indistinguishable [OF 1(1) 2 1(1) 3 4 1(2) 5]
  show ?thesis by simp
qed

subsection \<open>Session checks and logout\<close>

lemma getSessionUser_no_token:
  "\<not> truthy (localStorage w ''hrms_session_token'') \<Longrightarrow> getSessionUser env w = (None, w)"
  by (simp add: getSessionUser_def)

lemma removeItem_storage:
  "localStorage (removeItem k w) = (localStorage w)(k := None)"
  "user_sessions (removeItem k w) = user_sessions w"
  "profiles (removeItem k w) = profiles w"
  "user_roles (removeItem k w) = user_roles w"
  by (simp_all add: removeItem_def)

text \<open>
  C3, as amended. When a non-empty token is stored, the Session lookup is served and
  finds one row for it, and that row expired strictly before the current time,
  \<open>getSessionUser\<close> returns none, removes both session-store keys and requests the
  deletion of the rows with that token. The rows are gone when the delete is served
  and stay when it fails: the answer to the delete is not looked at. Profiles and
  roles are untouched, and a second call right after returns none and changes
  nothing.
\<close>

theorem C3_expired_session:
  assumes "localStorage w ''hrms_session_token'' = Some t" and "t \<noteq> []"
    and "gs_session_lookup env = Served"
    and "filter (\<lambda>s. s_session_token s = t) (user_sessions w) = [session]"
    and "s_expires_at session < gs_now env"
  shows "fst (getSessionUser env w) = None
    \<and> localStorage (snd (getSessionUser env w))
        = (localStorage w)(''hrms_session_token'' := None, ''hrms_user_id'' := None)
    \<and> (gs_session_delete env = Served \<longrightarrow>
          user_sessions (snd (getSessionUser env w))
            = filter (\<lambda>s. s_session_token s \<noteq> t) (user_sessions w))
    \<and> (gs_session_delete env \<noteq> Served \<longrightarrow>
          user_sessions (snd (getSessionUser env w)) = user_sessions w)
    \<and> profiles (snd (getSessionUser env w)) = profiles w
    \<and> user_roles (snd (getSessionUser env w)) = user_roles w
    \<and> getSessionUser env' (snd (getSessionUser env w)) = (None, snd (getSessionUser env w))"
proof -
  from assms have eq: "getSessionUser env w =
      (None, removeItem ''hrms_user_id'' (removeItem ''hrms_session_token''
          (w\<lparr>user_sessions :=
               snd (delete_eq (gs_session_delete env) (\<lambda>s. s_session_token s = t)
                      (user_sessions w))\<rparr>)))"
    by (simp add: getSessionUser_def Let_def truthy_def maybeSingle_def answer_def)
  have again: "getSessionUser env' (snd (getSessionUser env w)) = (None, snd (getSessionUser env w))"
    by (rule getSessionUser_no_token) (simp add: eq removeItem_storage truthy_def)
  show ?thesis
    by (simp add: again) (simp add: eq removeItem_storage delete_eq_def split: outcome.splits)
qed

text \<open>
  The browser of the scenario at time 1000, every request served.
\<close>

theorem C3_expired_session_witness:
  "fst (getSessionUser (session_served 1000) signed_in) = None
   \<and> user_sessions (snd (getSessionUser (session_served 1000) signed_in)) = []
   \<and> localStorage (snd (getSessionUser (session_served 1000) signed_in)) ''hrms_session_token'' = None"
proof -
  have 1: "localStorage signed_in ''hrms_session_token'' = Some ''tok-1''" "''tok-1'' \<noteq> []"
    by (simp_all add: signed_in_def)
  have 2: "gs_session_lookup (session_served 1000) = Served"
    "gs_session_delete (session_served 1000) = Served"
    by (simp_all add: session_served_def)
  have 3: "filter (\<lambda>s. s_session_token s = ''tok-1'') (user_sessions signed_in) = [old_session]"
    by (simp add: signed_in_def old_session_def)
  have 4: "s_expires_at old_session < gs_now (session_served 1000)"
    by (simp add: old_session_def session_served_def)
  have 5: "filter (\<lambda>s. s_session_token s \<noteq> ''tok-1'') (user_sessions signed_in) = []"
    by (simp add: signed_in_def old_session_def)
  from C3_expired_session [OF 1 2(1) 3 4] 2(2) 5 show ?thesis by simp
qed

text \<open>
  C3 as stated does not hold: the stored token's Session has expired, the delete
  request fails, and the expired row is still in the table after the call.
\<close>

theorem C3_failed_delete_keeps_row:
  "localStorage signed_in ''hrms_session_token'' = Some ''tok-1''
   \<and> old_session \<in> set (user_sessions signed_in)
   \<and> s_session_token old_session = ''tok-1''
   \<and> s_expires_at old_session < gs_now delete_fails
   \<and> old_session \<in> set (user_sessions (snd (getSessionUser delete_fails signed_in)))"
  by code_simp

text \<open>
  C7. When a non-empty token is stored, the Session lookup is served with one
  unexpired row, the Profile lookup is served with one Profile, and the user has no
  Role-assignment row, \<open>getSessionUser\<close> returns the user view built from that Profile
  with role "employee", whatever the role lookup answers, and changes nothing.
\<close>

theorem C7_role_defaults_to_employee:
  assumes "localStorage w ''hrms_session_token'' = Some t" and "t \<noteq> []"
    and "gs_session_lookup env = Served"
    and "filter (\<lambda>s. s_session_token s = t) (user_sessions w) = [session]"
    and "\<not> s_expires_at session < gs_now env"
    and "gs_profile_lookup env = Served"
    and "filter (\<lambda>p. p_id p = s_profile_id session) (profiles w) = [profile]"
    and "filter (\<lambda>r. r_user_id r = p_user_id profile) (user_roles w) = []"
  shows "getSessionUser env w =
     (Some \<lparr>u_id = p_user_id profile, u_profileId = p_id profile, u_email = p_email profile,
            u_firstName = p_first_name profile, u_lastName = p_last_name profile,
            u_role = ''employee''\<rparr>, w)"
  using assms
  by (simp add: getSessionUser_def Let_def truthy_def maybeSingle_def answer_def failed_def
      or_default_def split: outcome.splits)

text \<open>
  The browser of the scenario at time 100, with the Role row removed.
\<close>

theorem C7_role_defaults_to_employee_witness:
  "getSessionUser (session_served 100) no_role =
     (Some \<lparr>u_id = ''u-1'', u_profileId = ''p-1'', u_email = js ''a@b.com'',
            u_firstName = ''Ada'', u_lastName = ''Byron'', u_role = ''employee''\<rparr>, no_role)"
proof -
  have 1: "localStorage no_role ''hrms_session_token'' = Some ''tok-1''" "''tok-1'' \<noteq> []"
    by (simp_all add: no_role_def signed_in_def)
  have 2: "gs_session_lookup (session_served 100) = Served"
    "gs_profile_lookup (session_served 100) = Served"
    by (simp_all add: session_served_def)
  have 3: "filter (\<lambda>s. s_session_token s = ''tok-1'') (user_sessions no_role) = [old_session]"
    by (simp add: no_role_def signed_in_def old_session_def)
  have 4: "\<not> s_expires_at old_session < gs_now (session_served 100)"
    by (simp add: old_session_def session_served_def)
  have 5: "filter (\<lambda>p. p_id p = s_profile_id old_session) (profiles no_role) = [alice]"
    by (simp add: no_role_def signed_in_def office_def old_session_def alice_def)
  have 6: "filter (\<lambda>r. r_user_id r = p_user_id alice) (user_roles no_role) = []"
    by (simp add: no_role_def)
  from C7_role_defaults_to_employee [OF 1 2(1) 3 4 2(2) 5 6] show ?thesis
    by (simp add: alice_def)
qed

lemma tableLogout_storage:
  "localStorage (tableLogout oc w)
     = (localStorage w)(''hrms_session_token'' := None, ''hrms_user_id'' := None)"
  by (simp add: tableLogout_def Let_def removeItem_def)

lemma tableLogout_tables:
  "profiles (tableLogout oc w) = profiles w"
  "user_roles (tableLogout oc w) = user_roles w"
  "user_sessions (tableLogout oc w)
     = (if truthy (localStorage w ''hrms_session_token'') \<and> oc = Served
        then filter (\<lambda>s. Some (s_session_token s) \<noteq> localStorage w ''hrms_session_token'')
               (user_sessions w)
        else user_sessions w)"
  by (simp_all add: tableLogout_def Let_def removeItem_def delete_eq_def split: outcome.splits)

lemma tableLogout_twice: "tableLogout oc' (tableLogout oc w) = tableLogout oc w"
proof -
  have "\<not> truthy (localStorage (tableLogout oc w) ''hrms_session_token'')"
    by (simp add: tableLogout_storage truthy_def)
  then have "tableLogout oc' (tableLogout oc w)
      = removeItem ''hrms_user_id'' (removeItem ''hrms_session_token'' (tableLogout oc w))"
    by (simp add: tableLogout_def Let_def)
  also have "\<dots> = tableLogout oc w"
    by (simp add: tableLogout_def Let_def removeItem_def)
  finally show ?thesis .
qed

text \<open>
  C9. Whatever the stored token and whatever the delete request answers, after
  \<open>tableLogout\<close> both session-store keys are absent and no other key has changed; the
  Session rows with the stored token are deleted exactly when a (non-empty) token was
  stored and the delete was served, and no other table changes; a second
  \<open>tableLogout\<close> changes nothing; and \<open>getSessionUser\<close> afterwards returns none and
  changes nothing.
\<close>

theorem C9_logout:
  "localStorage (tableLogout oc w)
     = (localStorage w)(''hrms_session_token'' := None, ''hrms_user_id'' := None)
   \<and> user_sessions (tableLogout oc w)
     = (if truthy (localStorage w ''hrms_session_token'') \<and> oc = Served
        then filter (\<lambda>s. Some (s_session_token s) \<noteq> localStorage w ''hrms_session_token'')
               (user_sessions w)
        else user_sessions w)
   \<and> profiles (tableLogout oc w) = profiles w
   \<and> user_roles (tableLogout oc w) = user_roles w
   \<and> tableLogout oc' (tableLogout oc w) = tableLogout oc w
   \<and> getSessionUser env (tableLogout oc w) = (None, tableLogout oc w)"
proof -
  have "getSessionUser env (tableLogout oc w) = (None, tableLogout oc w)"
    by (rule getSessionUser_no_token) (simp add: tableLogout_storage truthy_def)
  then show ?thesis
    by (simp only: tableLogout_storage tableLogout_tables tableLogout_twice simp_thms)
qed

text \<open>
  Logging out with a stored token (delete served, delete failed) and without one.
\<close>

theorem C9_logout_witness:
  "user_sessions (tableLogout Served signed_in) = []
   \<and> user_sessions (tableLogout (Faulted ''network'') signed_in) = [old_session]
   \<and> localStorage (tableLogout (Faulted ''network'') signed_in) ''hrms_session_token'' = None
   \<and> localStorage (tableLogout Served office) ''hrms_user_id'' = None
   \<and> fst (getSessionUser (session_served 100) (tableLogout (Faulted ''network'') signed_in)) = None
   \<and> fst (getSessionUser (session_served 100) (tableLogout Served office)) = None"
proof -
  have 1: "truthy (localStorage signed_in ''hrms_session_token'')"
    by (simp add: signed_in_def truthy_def)
  have 2: "filter (\<lambda>s. Some (s_session_token s) \<noteq> localStorage signed_in ''hrms_session_token'')
               (user_sessions signed_in) = []"
    "user_sessions signed_in = [old_session]"
    by (simp_all add: signed_in_def old_session_def)
  from C9_logout [of Served signed_in Served "session_served 100"]
       C9_logout [of "Faulted ''network''" signed_in Served "session_served 100"]
       C9_logout [of Served office Served "session_served 100"] 1 2
  show ?thesis by simp
qed

subsection \<open>Sign-up\<close>

text \<open>
  When the existence check is served and finds one Profile with the normalized
  email, the call returns \<open>{success: false, error: "Email already registered"}\<close> and
  the world it was given: no Profile row and no Role row is added.
\<close>

lemma createTableUser_rejects_registered_email:
  assumes "cu_exists_lookup env = Served"
    and "filter (\<lambda>p. p_email p = trim (toLowerCase (cu_unicode_lower env) email)) (profiles w) = [existing]"
  shows "createTableUser env email password firstName lastName role additionalData w
     = (\<lparr>c_success = False, c_userId = None, c_profileId = None,
         c_error = Some ''Email already registered''\<rparr>, w)"
  using assms
  by (simp add: createTableUser_def Let_def maybeSingle_def answer_def create_failure_def)

text \<open>
  C8. A call made while a Profile with the normalized email exists is to return
  "Email already registered" and to create no second Profile row and no Role row.
  The code reads only \<open>data\<close> of the existence check and drops its \<open>error\<close>, so it does
  this only when the check is answered. Here a Profile with the email exists and the
  check fails: the call goes on to hash and insert. If the table takes the row there
  are two Profiles with the email and a second Role row, and the call reports
  success; if the table refuses the row the call reports the table's message.
\<close>

theorem C8_failed_check_goes_on_to_insert:
  "filter (\<lambda>p. p_email p = trim (toLowerCase (cu_unicode_lower check_fails) (js ''a@b.com'')))
      (profiles office) = [alice]
   \<and> cu_exists_lookup check_fails = Faulted ''network''
   \<and> fst (createTableUser check_fails (js ''a@b.com'') ''pw'' ''Al'' ''B'' employee None office)
       = \<lparr>c_success = True, c_userId = Some ''u-2'', c_profileId = Some ''p-2'', c_error = None\<rparr>
   \<and> length (filter (\<lambda>p. p_email p = js ''a@b.com'')
        (profiles (snd (createTableUser check_fails (js ''a@b.com'') ''pw'' ''Al'' ''B'' employee None
           office)))) = 2
   \<and> length (user_roles (snd (createTableUser check_fails (js ''a@b.com'') ''pw'' ''Al'' ''B''
        employee None office))) = 2
   \<and> fst (createTableUser check_fails_unique (js ''a@b.com'') ''pw'' ''Al'' ''B'' employee None office)
       = \<lparr>c_success = False, c_userId = None, c_profileId = None,
          c_error = Some ''duplicate key value''\<rparr>"
  by code_simp

text \<open>The second account of that run.\<close>

theorem C8_failed_check_goes_on_to_insert_witness:
  "c_success (fst (createTableUser check_fails (js ''a@b.com'') ''pw'' ''Al'' ''B'' employee None
      office))
   \<and> length (filter (\<lambda>p. p_email p = js ''a@b.com'')
        (profiles (snd (createTableUser check_fails (js ''a@b.com'') ''pw'' ''Al'' ''B'' employee None
           office)))) = 2"
  using C8_failed_check_goes_on_to_insert by simp

lemma inserted_profile_sel:
  "p_id (inserted_profile env email firstName lastName passwordHash additionalData)
     = cu_new_profile_id env"
  "p_user_id (inserted_profile env email firstName lastName passwordHash additionalData)
     = cu_randomUUID env"
  "p_email (inserted_profile env email firstName lastName passwordHash additionalData)
     = trim (toLowerCase (cu_unicode_lower env) email)"
  "p_password_hash (inserted_profile env email firstName lastName passwordHash additionalData)
     = passwordHash"
  by (simp_all add: inserted_profile_def)

lemma createTableUser_role_fault:
  assumes "filter (\<lambda>p. p_email p = trim (toLowerCase (cu_unicode_lower env) email)) (profiles w) = []"
    and "cu_hash env = Served" and "cu_hash_password env password = Some h" and "h \<noteq> []"
    and "cu_profile_insert env = Served"
    and "cu_role_insert env = Faulted m"
  shows "createTableUser env email password firstName lastName role additionalData w
       = (\<lparr>c_success = False, c_userId = None, c_profileId = None,
           c_error = Some ''Failed to assign role''\<rparr>,
          w\<lparr>profiles := snd (delete_eq (cu_rollback_delete env)
                 (\<lambda>p. p_id p = cu_new_profile_id env)
                 (profiles w @ [inserted_profile env email firstName lastName (Some h)
                                  additionalData]))\<rparr>)"
  using assms
  by (simp add: createTableUser_def Let_def maybeSingle_def single_def rpc_def answer_def
      failed_def truthy_def insert_returning_def insert_row_def create_failure_def
      inserted_profile_def split: outcome.splits)

text \<open>
  C2, as amended. When no Profile has the normalized email, the hash is obtained,
  the Profile insert is served and the Role insert fails, the call returns
  \<open>{success: false, error: "Failed to assign role"}\<close>, adds no Role row and requests
  the deletion of the Profile rows with the new id. When that delete is served, no
  row with the new id is left and no Profile has the email; when it fails, the
  inserted Profile stays: the answer to the delete is not looked at.
\<close>

theorem C2_role_failure_rollback:
  assumes "filter (\<lambda>p. p_email p = trim (toLowerCase (cu_unicode_lower env) email)) (profiles w) = []"
    and "cu_hash env = Served" and "cu_hash_password env password = Some h" and "h \<noteq> []"
    and "cu_profile_insert env = Served"
    and "cu_role_insert env = Faulted m"
  shows "fst (createTableUser env email password firstName lastName role additionalData w)
       = \<lparr>c_success = False, c_userId = None, c_profileId = None,
          c_error = Some ''Failed to assign role''\<rparr>
    \<and> user_roles (snd (createTableUser env email password firstName lastName role additionalData w))
       = user_roles w
    \<and> (cu_rollback_delete env = Served \<longrightarrow>
         profiles (snd (createTableUser env email password firstName lastName role additionalData w))
           = filter (\<lambda>p. p_id p \<noteq> cu_new_profile_id env) (profiles w)
       \<and> filter (\<lambda>p. p_email p = trim (toLowerCase (cu_unicode_lower env) email))
           (profiles (snd (createTableUser env email password firstName lastName role additionalData w)))
           = [])
    \<and> (cu_rollback_delete env \<noteq> Served \<longrightarrow>
         (\<exists>row. p_id row = cu_new_profile_id env \<and> p_email row = trim (toLowerCase (cu_unicode_lower env) email)
           \<and> profiles (snd (createTableUser env email password firstName lastName role additionalData w))
               = profiles w @ [row]))"
proof -
  let ?row = "inserted_profile env email firstName lastName (Some h) additionalData"
  note eq = createTableUser_role_fault [OF assms, of firstName lastName role additionalData]
  have row: "p_id ?row = cu_new_profile_id env" "p_email ?row = trim (toLowerCase (cu_unicode_lower env) email)"
    by (simp_all add: inserted_profile_sel)
  have none: "filter (\<lambda>p. p_email p = trim (toLowerCase (cu_unicode_lower env) email))
       (filter (\<lambda>p. p_id p \<noteq> cu_new_profile_id env) (profiles w)) = []"
    using assms(1) by (simp add: filter_empty_conv)
  show ?thesis
  proof (cases "cu_rollback_delete env")
    case Served
    with row none show ?thesis by (simp add: eq delete_eq_def)
  next
    case (Faulted m')
    with row show ?thesis by (simp add: eq delete_eq_def)
  qed
qed

text \<open>
  A sign-up whose Role insert fails, with the rollback served and with the rollback
  failing.
\<close>

theorem C2_role_failure_rollback_witness:
  "c_error (fst (createTableUser role_insert_fails (js ''New@b.com'') ''pw'' ''N'' ''U'' employee None office))
      = Some ''Failed to assign role''
   \<and> profiles (snd (createTableUser role_insert_fails (js ''New@b.com'') ''pw'' ''N'' ''U'' employee None office))
      = [alice]
   \<and> length (profiles (snd (createTableUser rollback_fails (js ''New@b.com'') ''pw'' ''N'' ''U'' employee None office)))
      = 2"
proof -
  have e: "cu_exists_lookup role_insert_fails = Served" "cu_hash role_insert_fails = Served"
      "cu_hash_password role_insert_fails ''pw'' = Some ''h-pw''" "''h-pw'' \<noteq> []"
      "cu_profile_insert role_insert_fails = Served"
      "cu_role_insert role_insert_fails = Faulted ''denied''"
      "cu_rollback_delete role_insert_fails = Served"
    by (simp_all add: role_insert_fails_def create_served_def)
  have e': "cu_exists_lookup rollback_fails = Served" "cu_hash rollback_fails = Served"
      "cu_hash_password rollback_fails ''pw'' = Some ''h-pw''"
      "cu_profile_insert rollback_fails = Served"
      "cu_role_insert rollback_fails = Faulted ''denied''"
      "cu_rollback_delete rollback_fails \<noteq> Served"
    by (simp_all add: rollback_fails_def role_insert_fails_def create_served_def)
  have n: "filter (\<lambda>p. p_email p = trim (toLowerCase (cu_unicode_lower role_insert_fails) (js ''New@b.com''))) (profiles office) = []"
    by code_simp
  have n': "filter (\<lambda>p. p_email p = trim (toLowerCase (cu_unicode_lower rollback_fails) (js ''New@b.com''))) (profiles office) = []"
    by code_simp
  have k: "filter (\<lambda>p. p_id p \<noteq> cu_new_profile_id role_insert_fails) (profiles office) = [alice]"
    by (simp add: office_def alice_def role_insert_fails_def create_served_def)
  have o: "length (profiles office) = 1" by (simp add: office_def)
  from C2_role_failure_rollback [OF n e(2) e(3) e(4) e(5) e(6), of "''N''" "''U''" employee None]
    e(7) k
  have a: "c_error (fst (createTableUser role_insert_fails (js ''New@b.com'') ''pw'' ''N'' ''U'' employee None office))
      = Some ''Failed to assign role''"
    "profiles (snd (createTableUser role_insert_fails (js ''New@b.com'') ''pw'' ''N'' ''U'' employee None office))
      = [alice]"
    by simp_all
  from C2_role_failure_rollback [OF n' e'(2) e'(3) e(4) e'(4) e'(5), of "''N''" "''U''" employee None]
    e'(6)
  obtain row where "profiles (snd (createTableUser rollback_fails (js ''New@b.com'') ''pw'' ''N'' ''U'' employee None office))
               = profiles office @ [row]"
    by blast
  with o have "length (profiles (snd (createTableUser rollback_fails (js ''New@b.com'') ''pw'' ''N'' ''U'' employee None office)))
      = 2" by simp
  with a show ?thesis by simp
qed

text \<open>
  C2 as stated does not hold: the Profile insert succeeds, the Role insert fails,
  the rollback delete fails too, and one Profile with the email is left behind.
\<close>

theorem C2_failed_rollback_leaves_profile:
  "cu_profile_insert rollback_fails = Served
   \<and> cu_role_insert rollback_fails = Faulted ''denied''
   \<and> filter (\<lambda>p. p_email p = (js ''new@b.com'')) (profiles office) = []
   \<and> fst (createTableUser rollback_fails (js ''new@b.com'') ''pw'' ''N'' ''U'' employee None office)
       = \<lparr>c_success = False, c_userId = None, c_profileId = None,
          c_error = Some ''Failed to assign role''\<rparr>
   \<and> length (filter (\<lambda>p. p_email p = (js ''new@b.com''))
        (profiles (snd (createTableUser rollback_fails (js ''new@b.com'') ''pw'' ''N'' ''U'' employee None office))))
       = 1"
  by code_simp


subsection \<open>Password update\<close>

text \<open>
  C10. When the hashing call is served with a non-empty hash and the update is
  served, \<open>updatePassword\<close> returns \<open>{success: true}\<close> for every profile id; the hash
  is written to the rows with that id, and when there is no such row the world is
  unchanged and the result is still success.
\<close>

theorem C10_update_without_match_check:
  assumes "ue_hash env = Served" and "ue_hash_password env newPassword = Some h" and "h \<noteq> []"
    and "ue_update env = Served"
  shows "fst (updatePassword env profileId newPassword w) = \<lparr>up_success = True, up_error = None\<rparr>
    \<and> profiles (snd (updatePassword env profileId newPassword w))
        = map (\<lambda>p. if p_id p = profileId then p\<lparr>p_password_hash := Some h\<rparr> else p) (profiles w)
    \<and> ((\<forall>p \<in> set (profiles w). p_id p \<noteq> profileId)
          \<longrightarrow> snd (updatePassword env profileId newPassword w) = w)"
proof -
  from assms have eq: "updatePassword env profileId newPassword w =
     (\<lparr>up_success = True, up_error = None\<rparr>,
      w\<lparr>profiles := map (\<lambda>p. if p_id p = profileId then p\<lparr>p_password_hash := Some h\<rparr> else p)
                       (profiles w)\<rparr>)"
    by (simp add: updatePassword_def Let_def rpc_def answer_def truthy_def update_eq_def)
  have "(\<forall>p \<in> set (profiles w). p_id p \<noteq> profileId) \<longrightarrow>
     map (\<lambda>p. if p_id p = profileId then p\<lparr>p_password_hash := Some h\<rparr> else p) (profiles w)
       = profiles w"
    by (simp add: map_idI)
  then show ?thesis by (auto simp: eq)
qed

text \<open>
  Updating the password of a profile id that no row has.
\<close>

theorem C10_update_without_match_check_witness:
  "fst (updatePassword update_served ''no-such-profile'' ''pw'' office)
      = \<lparr>up_success = True, up_error = None\<rparr>
   \<and> snd (updatePassword update_served ''no-such-profile'' ''pw'' office) = office"
proof -
  have 1: "ue_hash update_served = Served" "ue_hash_password update_served ''pw'' = Some ''h-pw''"
     "''h-pw'' \<noteq> []" "ue_update update_served = Served"
    by (simp_all add: update_served_def)
  have 2: "\<forall>p \<in> set (profiles office). p_id p \<noteq> ''no-such-profile''"
    by (simp add: office_def alice_def)
  from C10_update_without_match_check [OF 1, of "''no-such-profile''" office] 2
  show ?thesis by simp
qed

subsection \<open>Email normalisation\<close>











lemma latin1_dropWhile: "latin1 s \<Longrightarrow> latin1 (dropWhile P s)"
  unfolding latin1_def list_all_iff by (meson set_dropWhileD)

lemma latin1_rev: "latin1 (rev s) = latin1 s"
  by (simp add: latin1_def list_all_iff)

lemma latin1_trim: "latin1 s \<Longrightarrow> latin1 (trim s)"
  by (simp add: trim_def latin1_rev latin1_dropWhile)










lemma letter_case_is_case: "list_all2 same_letter xs ys \<Longrightarrow> equal_up_to_case xs ys"
  by (induction rule: list_all2_induct) (auto intro: equal_up_to_case.intros)







end
